theory Spec2Isabelle
  imports Complex_Main "HOL-Library.AList"
begin

section \<open>AUSWO points calculator: the rule table and the scoring functions\<close>

text \<open>
  The development follows \<^verbatim>\<open>AUSWO/app/main.py\<close>. The scorers read a rule table
  \<^verbatim>\<open>RULES\<close> that is loaded once from \<^verbatim>\<open>rules.json\<close>; here the table is an explicit
  argument \<open>R\<close> of every scorer, so each result below holds for every table.

  Numbers: the scores of an English test are Python floats that are only ever compared,
  never computed with. The request classes accept every float for them, \<^verbatim>\<open>nan\<close> and
  the infinities included, so they are modelled by the type \<open>pyfloat\<close> below with the
  comparisons of Python. The numbers of the rule table are finite and modelled as reals.
  Ages, years and points are Python integers, modelled as \<open>int\<close>.
\<close>

subsection \<open>Python floats and their comparisons\<close>

text \<open>
  A float is a finite number, \<^verbatim>\<open>inf\<close>, \<^verbatim>\<open>-inf\<close> or \<^verbatim>\<open>nan\<close>. Every comparison with
  \<^verbatim>\<open>nan\<close> is false; the other values are ordered as usual.
\<close>

datatype pyfloat = Fin real | PosInf | NegInf | NaN

fun py_le :: "pyfloat \<Rightarrow> pyfloat \<Rightarrow> bool" where
  "py_le NaN b = False"
| "py_le a NaN = False"
| "py_le NegInf b = True"
| "py_le a PosInf = True"
| "py_le (Fin x) (Fin y) = (x \<le> y)"
| "py_le (Fin x) NegInf = False"
| "py_le PosInf b = False"

fun py_lt :: "pyfloat \<Rightarrow> pyfloat \<Rightarrow> bool" where
  "py_lt NaN b = False"
| "py_lt a NaN = False"
| "py_lt (Fin x) (Fin y) = (x < y)"
| "py_lt (Fin x) PosInf = True"
| "py_lt (Fin x) NegInf = False"
| "py_lt NegInf NegInf = False"
| "py_lt NegInf b = True"
| "py_lt PosInf b = False"

text \<open>\<^verbatim>\<open>a >= b\<close> on floats holds exactly when \<^verbatim>\<open>b <= a\<close> does.\<close>

definition py_ge :: "pyfloat \<Rightarrow> pyfloat \<Rightarrow> bool" where
  "py_ge a b = py_le b a"

text \<open>
  \<^verbatim>\<open>min(items)\<close> on a list with first element \<open>cur\<close>: the built-in keeps a running
  minimum that starts at the first element and is replaced by a later element only when
  that element compares less than it.
\<close>

fun py_min_from :: "pyfloat \<Rightarrow> pyfloat list \<Rightarrow> pyfloat" where
  "py_min_from cur [] = cur"
| "py_min_from cur (item # items) = py_min_from (if py_lt item cur then item else cur) items"

subsection \<open>The rule table\<close>

text \<open>
  Modelled from the spec: the shape of the rule table (the file \<^verbatim>\<open>rules.json\<close> that
  \<^verbatim>\<open>RULES\<close> is read from is not among the sources). A bucket is
  \<^verbatim>\<open>{min, max (optional), points}\<close>; the rows of the per-skill band tables are read
  through \<^verbatim>\<open>min\<close> and \<^verbatim>\<open>points\<close> only and share the type.
\<close>

record bucket =
  bmin :: real
  bmax :: "real option"
  points :: int

record english_rules =
  ielts_overall :: "bucket list"
  pte_overall :: "bucket list"
  ielts_bands :: "bucket list"
  pte_bands :: "bucket list"

record work_experience_rules =
  overseas :: "bucket list"
  australia :: "bucket list"
  mode :: string
  cap_points :: int

record australia_study_rules =
  study_points :: int
  regional_bonus :: int

record meta =
  version :: string
  updated_at :: string

record rules =
  rules_meta :: meta
  rules_age :: "bucket list"
  rules_english :: english_rules
  rules_education_mapping :: "string \<rightharpoonup> int"
  rules_work_experience :: work_experience_rules
  rules_australia_study :: australia_study_rules
  rules_professional_year_points :: int
  rules_naati_points :: int
  rules_partner :: "string \<rightharpoonup> int"
  rules_state_nomination :: "string \<rightharpoonup> int"

subsection \<open>The request\<close>

record English =
  test :: string
  overall :: "pyfloat option"
  listening :: "pyfloat option"
  reading :: "pyfloat option"
  writing :: "pyfloat option"
  speaking :: "pyfloat option"

record WorkExp =
  overseas_years :: int
  aus_years :: int

record AuStudy =
  completed :: bool
  regional :: bool

record CalcRequest =
  visa :: string
  age :: int
  english :: English
  education :: string
  work_experience :: WorkExp
  australia_study :: AuStudy
  professional_year :: bool
  naati :: bool
  partner :: string

text \<open>
  What the declarations of the request classes enforce before \<^verbatim>\<open>calc_points\<close> runs:
  the \<^verbatim>\<open>Literal\<close> fields take one of their listed strings and the \<^verbatim>\<open>Field\<close>
  bounds hold.
\<close>

definition valid_English :: "English \<Rightarrow> bool" where
  "valid_English e = (test e \<in> {''ielts'', ''pte''})"

definition valid_WorkExp :: "WorkExp \<Rightarrow> bool" where
  "valid_WorkExp w = (0 \<le> overseas_years w \<and> 0 \<le> aus_years w)"

definition valid_CalcRequest :: "CalcRequest \<Rightarrow> bool" where
  "valid_CalcRequest req =
     (visa req \<in> {''189'', ''190'', ''491''} \<and>
      0 \<le> age req \<and> age req \<le> 100 \<and>
      valid_English (english req) \<and>
      education req \<in> {''phd'', ''master'', ''bachelor'', ''diploma'', ''trade''} \<and>
      valid_WorkExp (work_experience req) \<and>
      partner req \<in> {''single'', ''skilled'', ''english_only'', ''none''})"

subsection \<open>Bucket lookup\<close>

text \<open>
  \<^verbatim>\<open>b.get("max", float("inf"))\<close>: the upper bound of a bucket is its \<^verbatim>\<open>max\<close>, or
  the float \<^verbatim>\<open>inf\<close> when the key is absent.
\<close>

definition get_max :: "bucket \<Rightarrow> pyfloat" where
  "get_max b = (case bmax b of None \<Rightarrow> PosInf | Some m \<Rightarrow> Fin m)"

text \<open>\<^verbatim>\<open>_bucket_points(buckets, value)\<close>: the loop returns at the first bucket that holds the value.\<close>

fun bucket_points :: "bucket list \<Rightarrow> pyfloat \<Rightarrow> int" where
  "bucket_points [] v = 0"
| "bucket_points (b # buckets) v =
     (if py_ge v (Fin (bmin b)) \<and> py_le v (get_max b) then points b
      else bucket_points buckets v)"

text \<open>An age or a number of years is a Python integer; it compares with the numbers of the
  table by its value.\<close>

definition score_age :: "rules \<Rightarrow> int \<Rightarrow> int" where
  "score_age R a = bucket_points (rules_age R) (Fin (real_of_int a))"

subsection \<open>English\<close>

text \<open>
  \<^verbatim>\<open>sorted(rows, key=lambda x: x["min"], reverse=True)\<close>: descending in the key, rows
  of equal key staying in their original order (Python's sort is stable, also under
  \<^verbatim>\<open>reverse\<close>).
\<close>

definition sorted_desc :: "bucket list \<Rightarrow> bucket list" where
  "sorted_desc rows = rev (sort_key bmin (rev rows))"

text \<open>
  The loop over the sorted rows returns at the first row whose threshold the minimum
  reaches; \<open>None\<close> is the loop running to its end.
\<close>

fun band_scan :: "bucket list \<Rightarrow> pyfloat \<Rightarrow> int option" where
  "band_scan [] mn = None"
| "band_scan (row # rows) mn =
     (if py_ge mn (Fin (bmin row)) then Some (points row) else band_scan rows mn)"

definition score_english :: "rules \<Rightarrow> English \<Rightarrow> int" where
  "score_english R e =
     (case overall e of
        Some ov \<Rightarrow>
          (if test e = ''ielts'' then bucket_points (ielts_overall (rules_english R)) ov
           else bucket_points (pte_overall (rules_english R)) ov)
      | None \<Rightarrow>
          (case (listening e, reading e, writing e, speaking e) of
             (Some l, Some r, Some w, Some s) \<Rightarrow>
               (let mn = py_min_from l [r, w, s] in
                case (if test e = ''ielts''
                      then band_scan (sorted_desc (ielts_bands (rules_english R))) mn
                      else band_scan (sorted_desc (pte_bands (rules_english R))) mn) of
                  Some p \<Rightarrow> p
                | None \<Rightarrow> 0)
           | _ \<Rightarrow> 0))"

subsection \<open>The other categories\<close>

text \<open>\<^verbatim>\<open>d.get(key, 0)\<close> on a mapping of the table.\<close>

definition get_or_0 :: "(string \<rightharpoonup> int) \<Rightarrow> string \<Rightarrow> int" where
  "get_or_0 d k = (case d k of None \<Rightarrow> 0 | Some p \<Rightarrow> p)"

definition score_education :: "rules \<Rightarrow> string \<Rightarrow> int" where
  "score_education R level = get_or_0 (rules_education_mapping R) level"

definition score_experience :: "rules \<Rightarrow> WorkExp \<Rightarrow> int" where
  "score_experience R ex =
     (let r = rules_work_experience R;
          over = bucket_points (overseas r) (Fin (real_of_int (overseas_years ex)));
          aus = bucket_points (australia r) (Fin (real_of_int (aus_years ex)))
      in if mode r = ''sum_cap'' then min (cap_points r) (over + aus)
         else if mode r = ''max_only'' then max over aus
         else 0)"

definition score_au_study :: "rules \<Rightarrow> AuStudy \<Rightarrow> int" where
  "score_au_study R stu =
     (let pts = 0;
          pts = (if completed stu
                 then (let pts = pts + study_points (rules_australia_study R)
                       in if regional stu
                          then pts + regional_bonus (rules_australia_study R)
                          else pts)
                 else pts)
      in pts)"

definition score_optional :: "rules \<Rightarrow> bool \<Rightarrow> bool \<Rightarrow> string \<Rightarrow> (string \<times> int) list" where
  "score_optional R py na pa =
     [(''professional_year'', if py then rules_professional_year_points R else 0),
      (''naati'', if na then rules_naati_points R else 0),
      (''partner'', get_or_0 (rules_partner R) pa)]"

definition score_state_nomination :: "rules \<Rightarrow> string \<Rightarrow> int" where
  "score_state_nomination R v = get_or_0 (rules_state_nomination R) v"

subsection \<open>The aggregator\<close>

text \<open>
  The breakdown is a Python dict: an association list in insertion order, where
  assigning to a key replaces its value in place or appends the key.
  \<^verbatim>\<open>br.update(opt)\<close> assigns the entries of \<open>opt\<close> in their order.
\<close>

definition dict_update :: "(string \<times> int) list \<Rightarrow> (string \<times> int) list \<Rightarrow> (string \<times> int) list" where
  "dict_update br opt = fold (\<lambda>(k, p). AList.update k p) opt br"

record response =
  resp_visa :: string
  total :: int
  breakdown :: "(string \<times> int) list"
  resp_notes :: "string list"

text \<open>
  With a table of the shape above no scorer raises, so the handler that turns an
  exception into the HTTP error 400 is never entered and \<^verbatim>\<open>calc_points\<close> always
  returns its response.
\<close>

definition calc_points :: "rules \<Rightarrow> CalcRequest \<Rightarrow> response" where
  "calc_points R req =
     (let br = [];
          br = AList.update ''age'' (score_age R (age req)) br;
          br = AList.update ''english'' (score_english R (english req)) br;
          br = AList.update ''education'' (score_education R (education req)) br;
          br = AList.update ''work_experience'' (score_experience R (work_experience req)) br;
          br = AList.update ''australia_study'' (score_au_study R (australia_study req)) br;
          opt = score_optional R (professional_year req) (naati req) (partner req);
          br = dict_update br opt;
          br = AList.update ''state_nomination'' (score_state_nomination R (visa req)) br;
          total = sum_list (map snd br)
      in \<lparr> resp_visa = visa req,
           total = total,
           breakdown = br,
           resp_notes = [''Rules '' @ version (rules_meta R) @ '' ('' @ updated_at (rules_meta R) @ '')'',
                         ''Demo only. Verify with current DHA policy if used in production.''] \<rparr>)"

section \<open>Reference predicates and example data\<close>

text \<open>The range of a bucket as the specification words it: \<open>min \<le> v \<le> max\<close>, with an absent
  \<open>max\<close> read as \<open>+\<infinity>\<close>. A finite value is in the bucket when it lies between the
  bounds, \<open>+\<infinity>\<close> when the bucket has no \<open>max\<close>; \<open>-\<infinity>\<close> and \<^verbatim>\<open>nan\<close> are in no bucket.\<close>

definition in_bucket_spec :: "bucket \<Rightarrow> pyfloat \<Rightarrow> bool" where
  "in_bucket_spec b v =
     (case v of
        Fin x \<Rightarrow> bmin b \<le> x \<and> (case bmax b of None \<Rightarrow> True | Some m \<Rightarrow> x \<le> m)
      | PosInf \<Rightarrow> bmax b = None
      | NegInf \<Rightarrow> False
      | NaN \<Rightarrow> False)"

text \<open>Every points value of a rule table is nonnegative.\<close>

definition nonneg_buckets :: "bucket list \<Rightarrow> bool" where
  "nonneg_buckets bs = (\<forall>b\<in>set bs. 0 \<le> points b)"

definition nonneg_mapping :: "(string \<rightharpoonup> int) \<Rightarrow> bool" where
  "nonneg_mapping d = (\<forall>p\<in>ran d. 0 \<le> p)"

definition nonneg_rules :: "rules \<Rightarrow> bool" where
  "nonneg_rules R =
     (nonneg_buckets (rules_age R) \<and>
      nonneg_buckets (ielts_overall (rules_english R)) \<and>
      nonneg_buckets (pte_overall (rules_english R)) \<and>
      nonneg_buckets (ielts_bands (rules_english R)) \<and>
      nonneg_buckets (pte_bands (rules_english R)) \<and>
      nonneg_mapping (rules_education_mapping R) \<and>
      nonneg_buckets (overseas (rules_work_experience R)) \<and>
      nonneg_buckets (australia (rules_work_experience R)) \<and>
      0 \<le> cap_points (rules_work_experience R) \<and>
      0 \<le> study_points (rules_australia_study R) \<and>
      0 \<le> regional_bonus (rules_australia_study R) \<and>
      0 \<le> rules_professional_year_points R \<and>
      0 \<le> rules_naati_points R \<and>
      nonneg_mapping (rules_partner R) \<and>
      nonneg_mapping (rules_state_nomination R))"

text \<open>A rule table in the \<^verbatim>\<open>sum_cap\<close> mode, with the per-skill bands listed in ascending
  order of their thresholds.\<close>

definition example_rules :: rules where
  "example_rules =
     \<lparr> rules_meta = \<lparr> version = ''2024.1'', updated_at = ''2024-07-01'' \<rparr>,
       rules_age = [\<lparr> bmin = 18, bmax = Some 24, points = 25 \<rparr>,
                    \<lparr> bmin = 25, bmax = Some 32, points = 30 \<rparr>,
                    \<lparr> bmin = 33, bmax = Some 39, points = 25 \<rparr>,
                    \<lparr> bmin = 40, bmax = Some 44, points = 15 \<rparr>],
       rules_english =
         \<lparr> ielts_overall = [\<lparr> bmin = 8, bmax = None, points = 20 \<rparr>,
                             \<lparr> bmin = 7, bmax = Some (79 / 10), points = 10 \<rparr>],
           pte_overall = [\<lparr> bmin = 79, bmax = None, points = 20 \<rparr>,
                           \<lparr> bmin = 65, bmax = Some 78, points = 10 \<rparr>],
           ielts_bands = [\<lparr> bmin = 7, bmax = None, points = 10 \<rparr>,
                           \<lparr> bmin = 8, bmax = None, points = 20 \<rparr>],
           pte_bands = [\<lparr> bmin = 65, bmax = None, points = 10 \<rparr>,
                         \<lparr> bmin = 79, bmax = None, points = 20 \<rparr>] \<rparr>,
       rules_education_mapping =
         [''phd'' \<mapsto> 20, ''master'' \<mapsto> 15, ''bachelor'' \<mapsto> 15,
          ''diploma'' \<mapsto> 10, ''trade'' \<mapsto> 10],
       rules_work_experience =
         \<lparr> overseas = [\<lparr> bmin = 3, bmax = Some 4, points = 5 \<rparr>,
                        \<lparr> bmin = 5, bmax = Some 7, points = 10 \<rparr>,
                        \<lparr> bmin = 8, bmax = None, points = 15 \<rparr>],
           australia = [\<lparr> bmin = 1, bmax = Some 2, points = 5 \<rparr>,
                         \<lparr> bmin = 3, bmax = Some 4, points = 10 \<rparr>,
                         \<lparr> bmin = 5, bmax = Some 7, points = 15 \<rparr>,
                         \<lparr> bmin = 8, bmax = None, points = 20 \<rparr>],
           mode = ''sum_cap'',
           cap_points = 20 \<rparr>,
       rules_australia_study = \<lparr> study_points = 5, regional_bonus = 5 \<rparr>,
       rules_professional_year_points = 5,
       rules_naati_points = 5,
       rules_partner =
         [''single'' \<mapsto> 10, ''skilled'' \<mapsto> 10, ''english_only'' \<mapsto> 5, ''none'' \<mapsto> 0],
       rules_state_nomination = [''189'' \<mapsto> 0, ''190'' \<mapsto> 5, ''491'' \<mapsto> 15] \<rparr>"

text \<open>The same table in the \<^verbatim>\<open>max_only\<close> mode, and with a mode the scorer does not know.\<close>

definition max_only_rules :: rules where
  "max_only_rules =
     example_rules \<lparr> rules_work_experience :=
       (rules_work_experience example_rules) \<lparr> mode := ''max_only'' \<rparr> \<rparr>"

definition average_rules :: rules where
  "average_rules =
     example_rules \<lparr> rules_work_experience :=
       (rules_work_experience example_rules) \<lparr> mode := ''average'' \<rparr> \<rparr>"


definition penalty_rules :: rules where
  "penalty_rules =
     example_rules \<lparr> rules_partner :=
       [''single'' \<mapsto> 10, ''skilled'' \<mapsto> 10, ''english_only'' \<mapsto> 5, ''none'' \<mapsto> - 5] \<rparr>"

text \<open>A 189 applicant with IELTS overall 8.0 and every profile field present, and an
  English result given by its four skills only.\<close>

definition example_request :: CalcRequest where
  "example_request =
     \<lparr> visa = ''189'', age = 29,
       english = \<lparr> test = ''ielts'', overall = Some (Fin 8), listening = None, reading = None,
                    writing = None, speaking = None \<rparr>,
       education = ''master'',
       work_experience = \<lparr> overseas_years = 6, aus_years = 3 \<rparr>,
       australia_study = \<lparr> completed = True, regional = True \<rparr>,
       professional_year = True, naati = False, partner = ''none'' \<rparr>"

definition skills_request :: English where
  "skills_request =
     \<lparr> test = ''ielts'', overall = None, listening = Some (Fin 9), reading = Some (Fin 9),
       writing = Some (Fin (15 / 2)), speaking = Some (Fin 8) \<rparr>"

text \<open>Two English results with the same four skill values, three scores of 9.0 and one
  \<^verbatim>\<open>nan\<close>, that differ only in the field that holds the \<^verbatim>\<open>nan\<close>.\<close>

definition nan_listening_request :: English where
  "nan_listening_request =
     \<lparr> test = ''ielts'', overall = None, listening = Some NaN, reading = Some (Fin 9),
       writing = Some (Fin 9), speaking = Some (Fin 9) \<rparr>"

definition nan_reading_request :: English where
  "nan_reading_request =
     \<lparr> test = ''ielts'', overall = None, listening = Some (Fin 9), reading = Some NaN,
       writing = Some (Fin 9), speaking = Some (Fin 9) \<rparr>"


section \<open>Supporting lemmas\<close>

subsection \<open>Bucket lookup\<close>

lemma py_ge_get_max: "(py_ge v (Fin (bmin b)) \<and> py_le v (get_max b)) = in_bucket_spec b v"
  by (cases v) (auto simp: py_ge_def in_bucket_spec_def get_max_def split: option.split)

lemma bucket_points_find:
  "bucket_points bs v = (case find (\<lambda>b. in_bucket_spec b v) bs of None \<Rightarrow> 0 | Some b \<Rightarrow> points b)"
  by (induction bs) (simp_all add: py_ge_get_max)

lemma bucket_points_nonneg: "nonneg_buckets bs \<Longrightarrow> 0 \<le> bucket_points bs v"
  by (induction bs) (simp_all add: nonneg_buckets_def)

subsection \<open>The minimum of the skills\<close>

text \<open>On finite scores the running minimum is the least of the four.\<close>

lemma py_min_from_finite:
  "py_min_from (Fin l) [Fin r, Fin w, Fin s] = Fin (Min {l, r, w, s})"
  by (simp add: min_def)

text \<open>A \<^verbatim>\<open>nan\<close> in the first place stays, since nothing compares less than it; a
  \<^verbatim>\<open>nan\<close> in a later place is passed over, since it compares less than nothing.\<close>

lemma py_lt_NaN: "py_lt a NaN = False"
  by (cases a) simp_all

lemma py_le_NaN: "py_le a NaN = False"
  by (cases a) simp_all

lemma py_min_from_NaN: "py_min_from NaN items = NaN"
  by (induction items) (simp_all add: py_lt_NaN)

lemma py_min_from_skip_NaN: "py_min_from cur (NaN # items) = py_min_from cur items"
  by simp

lemma band_scan_NaN: "band_scan rows NaN = None"
  by (induction rows) (simp_all add: py_ge_def)

subsection \<open>The descending scan of the per-skill bands\<close>

lemma band_scan_find:
  "band_scan rows mn = map_option points (find (\<lambda>r. py_ge mn (Fin (bmin r))) rows)"
  by (induction rows) simp_all

lemma set_sorted_desc: "set (sorted_desc rows) = set rows"
  by (simp add: sorted_desc_def)

lemma sorted_desc_descending:
  "sorted_wrt (\<lambda>a b. bmin a \<ge> bmin b) (sorted_desc rows)"
proof -
  have "sorted (map bmin (sort_key bmin (rev rows)))" by (rule sorted_sort_key)
  then have "sorted_wrt (\<lambda>a b. bmin a \<le> bmin b) (sort_key bmin (rev rows))"
    by (simp add: sorted_wrt_map)
  then show ?thesis
    by (simp add: sorted_desc_def sorted_wrt_rev)
qed

text \<open>Stability: among rows of one threshold the sort keeps the table order.\<close>

lemma sorted_desc_stable:
  "filter (\<lambda>y. bmin y = k) (sorted_desc rows) = filter (\<lambda>y. bmin y = k) rows"
proof -
  have "filter (\<lambda>y. bmin y = k) (sorted_desc rows)
        = rev (filter (\<lambda>y. bmin y = k) (sort_key bmin (rev rows)))"
    by (simp add: sorted_desc_def rev_filter)
  also have "\<dots> = rev (filter (\<lambda>y. bmin y = k) (rev rows))"
    by (simp only: sort_key_stable)
  also have "\<dots> = filter (\<lambda>y. bmin y = k) rows"
    by (simp add: rev_filter)
  finally show ?thesis .
qed

lemma find_descending:
  "sorted_wrt (\<lambda>a b. bmin a \<ge> bmin b) rows \<Longrightarrow>
   find (\<lambda>r. py_ge mn (Fin (bmin r))) rows = Some r \<Longrightarrow>
   r \<in> set rows \<and> py_ge mn (Fin (bmin r)) \<and> (\<forall>r'\<in>set rows. py_ge mn (Fin (bmin r')) \<longrightarrow> bmin r' \<le> bmin r)
   \<and> find (\<lambda>y. bmin y = bmin r) rows = Some r"
proof (induction rows)
  case Nil
  then show ?case by simp
next
  case (Cons a rows)
  show ?case
  proof (cases "py_ge mn (Fin (bmin a))")
    case True
    with Cons.prems show ?thesis by auto
  next
    case False
    with Cons.prems have f: "find (\<lambda>r. py_ge mn (Fin (bmin r))) rows = Some r"
      and s: "sorted_wrt (\<lambda>a b. bmin a \<ge> bmin b) rows" by simp_all
    from Cons.IH [OF s f] False show ?thesis by auto
  qed
qed

lemma find_via_filter:
  "find P xs = (case filter P xs of [] \<Rightarrow> None | x # _ \<Rightarrow> Some x)"
  by (induction xs) simp_all

text \<open>The scan of the sorted rows, read off the table in its own order: the first row
  that carries the greatest threshold that the minimum reaches.\<close>

lemma band_scan_sorted_desc:
  "band_scan (sorted_desc rows) mn =
     (if \<forall>b\<in>set rows. \<not> py_ge mn (Fin (bmin b)) then None
      else map_option points
             (find (\<lambda>b. bmin b = Max (bmin ` {b \<in> set rows. py_ge mn (Fin (bmin b))})) rows))"
proof (cases "\<forall>b\<in>set rows. \<not> py_ge mn (Fin (bmin b))")
  case True
  then have "find (\<lambda>r. py_ge mn (Fin (bmin r))) (sorted_desc rows) = None"
    by (simp add: find_None_iff set_sorted_desc)
  with True show ?thesis by (simp add: band_scan_find)
next
  case False
  then obtain r where r: "find (\<lambda>r. py_ge mn (Fin (bmin r))) (sorted_desc rows) = Some r"
    by (cases "find (\<lambda>r. py_ge mn (Fin (bmin r))) (sorted_desc rows)")
       (auto simp: find_None_iff set_sorted_desc)
  from find_descending [OF sorted_desc_descending r]
  have mem: "r \<in> set rows" and le: "py_ge mn (Fin (bmin r))"
    and top: "\<forall>r'\<in>set rows. py_ge mn (Fin (bmin r')) \<longrightarrow> bmin r' \<le> bmin r"
    and fst: "find (\<lambda>y. bmin y = bmin r) (sorted_desc rows) = Some r"
    by (simp_all add: set_sorted_desc)
  have "Max (bmin ` {b \<in> set rows. py_ge mn (Fin (bmin b))}) = bmin r"
    using mem le top by (intro Max_eqI) auto
  moreover have "find (\<lambda>y. bmin y = bmin r) rows = Some r"
    using fst by (simp add: find_via_filter sorted_desc_stable)
  ultimately show ?thesis
    using False r by (simp add: band_scan_find)
qed

text \<open>With pairwise different thresholds the result is the same for every order in which
  the table lists its rows.\<close>

lemma find_distinct_key:
  "distinct (map f xs) \<Longrightarrow> x \<in> set xs \<Longrightarrow> find (\<lambda>b. f b = f x) xs = Some x"
  by (induction xs) (auto simp: image_iff)

lemma band_scan_table_order:
  assumes "set rows' = set rows"
    and "distinct (map bmin rows)" and "distinct (map bmin rows')"
  shows "band_scan (sorted_desc rows') mn = band_scan (sorted_desc rows) mn"
proof (cases "\<forall>b\<in>set rows. \<not> py_ge mn (Fin (bmin b))")
  case True
  with assms(1) show ?thesis by (simp add: band_scan_sorted_desc)
next
  case False
  let ?Q = "{b \<in> set rows. py_ge mn (Fin (bmin b))}"
  have "finite (bmin ` ?Q)" and "bmin ` ?Q \<noteq> {}" using False by auto
  then have "Max (bmin ` ?Q) \<in> bmin ` ?Q" by (rule Max_in)
  then obtain b where b: "b \<in> set rows" "Max (bmin ` ?Q) = bmin b" by auto
  have "find (\<lambda>y. bmin y = bmin b) rows = Some b"
    using assms(2) b(1) by (rule find_distinct_key)
  moreover have "find (\<lambda>y. bmin y = bmin b) rows' = Some b"
    using assms(3) b(1) assms(1) by (auto intro: find_distinct_key)
  ultimately show ?thesis
    using False assms(1) b(2) by (simp add: band_scan_sorted_desc)
qed

lemma band_scan_nonneg: "nonneg_buckets rows \<Longrightarrow> band_scan rows mn = Some p \<Longrightarrow> 0 \<le> p"
  by (induction rows) (auto simp: nonneg_buckets_def split: if_splits)

lemma nonneg_sorted_desc: "nonneg_buckets (sorted_desc rows) = nonneg_buckets rows"
  by (simp add: nonneg_buckets_def set_sorted_desc)

subsection \<open>Mapping lookups\<close>

lemma score_state_nomination_lookup:
  "score_state_nomination R v = (case rules_state_nomination R v of None \<Rightarrow> 0 | Some p \<Rightarrow> p)"
  by (simp add: score_state_nomination_def get_or_0_def)

subsection \<open>The response\<close>

lemma breakdown_calc_points:
  "breakdown (calc_points R req) =
     [(''age'', score_age R (age req)),
      (''english'', score_english R (english req)),
      (''education'', score_education R (education req)),
      (''work_experience'', score_experience R (work_experience req)),
      (''australia_study'', score_au_study R (australia_study req)),
      (''professional_year'', if professional_year req then rules_professional_year_points R else 0),
      (''naati'', if naati req then rules_naati_points R else 0),
      (''partner'', get_or_0 (rules_partner R) (partner req)),
      (''state_nomination'', score_state_nomination R (visa req))]"
  by (simp add: calc_points_def dict_update_def score_optional_def Let_def)

lemma total_calc_points:
  "total (calc_points R req) = sum_list (map snd (breakdown (calc_points R req)))"
  by (simp add: calc_points_def Let_def)

subsection \<open>Nonnegative tables\<close>

lemma nonneg_mapping_empty: "nonneg_mapping Map.empty"
  by (simp add: nonneg_mapping_def)

lemma nonneg_mapping_upd: "nonneg_mapping d \<Longrightarrow> 0 \<le> p \<Longrightarrow> nonneg_mapping (d(k \<mapsto> p))"
  by (auto simp: nonneg_mapping_def ran_def split: if_splits)

lemma get_or_0_nonneg: "nonneg_mapping d \<Longrightarrow> 0 \<le> get_or_0 d k"
  by (auto simp: nonneg_mapping_def get_or_0_def ran_def split: option.split)

lemma score_age_nonneg: "nonneg_rules R \<Longrightarrow> 0 \<le> score_age R a"
  by (simp add: score_age_def nonneg_rules_def bucket_points_nonneg)

lemma score_english_nonneg: "nonneg_rules R \<Longrightarrow> 0 \<le> score_english R e"
  by (auto simp: score_english_def nonneg_rules_def bucket_points_nonneg Let_def
      nonneg_sorted_desc simp del: py_min_from.simps
      split: option.split intro: band_scan_nonneg [rotated])

lemma score_education_nonneg: "nonneg_rules R \<Longrightarrow> 0 \<le> score_education R level"
  by (simp add: score_education_def nonneg_rules_def get_or_0_nonneg)

lemma score_experience_nonneg:
  assumes "nonneg_rules R"
  shows "0 \<le> score_experience R ex"
proof -
  let ?r = "rules_work_experience R"
  have "0 \<le> bucket_points (overseas ?r) (Fin (real_of_int (overseas_years ex)))"
    and "0 \<le> bucket_points (australia ?r) (Fin (real_of_int (aus_years ex)))"
    and "0 \<le> cap_points ?r"
    using assms by (simp_all add: nonneg_rules_def bucket_points_nonneg)
  then show ?thesis
    by (simp add: score_experience_def Let_def le_max_iff_disj)
qed

lemma score_au_study_nonneg: "nonneg_rules R \<Longrightarrow> 0 \<le> score_au_study R stu"
  by (simp add: score_au_study_def nonneg_rules_def Let_def)

lemma score_state_nomination_nonneg: "nonneg_rules R \<Longrightarrow> 0 \<le> score_state_nomination R v"
  by (simp add: score_state_nomination_def nonneg_rules_def get_or_0_nonneg)

lemma nonneg_example_rules: "nonneg_rules example_rules"
  by (simp add: nonneg_rules_def example_rules_def nonneg_buckets_def
      nonneg_mapping_empty nonneg_mapping_upd)

lemma valid_example_request: "valid_CalcRequest example_request"
  by (simp add: valid_CalcRequest_def valid_English_def valid_WorkExp_def example_request_def)


section \<open>The claims\<close>

text \<open>
  C1. For every bucket sequence and every value \<open>v\<close>, \<^verbatim>\<open>_bucket_points\<close> returns the points
  of the first bucket in table order with \<open>min \<le> v \<le> max\<close> (an absent \<open>max\<close> being
  \<open>+\<infinity>\<close>), and 0 when no bucket holds \<open>v\<close>, the empty sequence included.
\<close>

theorem bucket_points_first_match:
  "(\<forall>i<length bs. in_bucket_spec (bs ! i) v \<and> (\<forall>j<i. \<not> in_bucket_spec (bs ! j) v)
        \<longrightarrow> bucket_points bs v = points (bs ! i)) \<and>
   ((\<forall>b\<in>set bs. \<not> in_bucket_spec b v) \<longrightarrow> bucket_points bs v = 0) \<and>
   bucket_points [] v = 0"
proof (intro conjI allI impI)
  fix i
  assume "i < length bs"
    and "in_bucket_spec (bs ! i) v \<and> (\<forall>j<i. \<not> in_bucket_spec (bs ! j) v)"
  then have "find (\<lambda>b. in_bucket_spec b v) bs = Some (bs ! i)"
    by (auto simp: find_Some_iff)
  then show "bucket_points bs v = points (bs ! i)"
    by (simp add: bucket_points_find)
next
  assume "\<forall>b\<in>set bs. \<not> in_bucket_spec b v"
  then have "find (\<lambda>b. in_bucket_spec b v) bs = None"
    by (simp add: find_None_iff)
  then show "bucket_points bs v = 0"
    by (simp add: bucket_points_find)
next
  show "bucket_points [] v = 0" by simp
qed

theorem bucket_points_first_match_witness:
  "in_bucket_spec (rules_age example_rules ! 1) (Fin 29) \<and>
   \<not> in_bucket_spec (rules_age example_rules ! 0) (Fin 29) \<and>
   bucket_points (rules_age example_rules) (Fin 29) = 30 \<and>
   \<not> (\<exists>b\<in>set (rules_age example_rules). in_bucket_spec b (Fin 50)) \<and>
   bucket_points (rules_age example_rules) (Fin 50) = 0 \<and>
   \<not> (\<exists>b\<in>set (rules_age example_rules). in_bucket_spec b NaN) \<and>
   bucket_points (rules_age example_rules) NaN = 0"
proof -
  let ?bs = "rules_age example_rules"
  have len: "1 < length ?bs"
    by (simp add: example_rules_def)
  have first: "in_bucket_spec (?bs ! 1) (Fin 29) \<and> (\<forall>j<1. \<not> in_bucket_spec (?bs ! j) (Fin 29))"
    by (simp add: example_rules_def in_bucket_spec_def)
  have none: "\<forall>b\<in>set ?bs. \<not> in_bucket_spec b (Fin 50)"
    by (simp add: example_rules_def in_bucket_spec_def)
  have nan: "\<forall>b\<in>set ?bs. \<not> in_bucket_spec b NaN"
    by (simp add: in_bucket_spec_def)
  from bucket_points_first_match [of ?bs "Fin 29"] len first
  have "bucket_points ?bs (Fin 29) = points (?bs ! 1)" by blast
  then have "bucket_points ?bs (Fin 29) = 30"
    by (simp add: example_rules_def)
  moreover from bucket_points_first_match [of ?bs "Fin 50"] none
  have "bucket_points ?bs (Fin 50) = 0" by blast
  moreover from bucket_points_first_match [of ?bs NaN] nan
  have "bucket_points ?bs NaN = 0" by blast
  ultimately show ?thesis using first none nan by simp
qed

text \<open>
  C2. When \<open>overall\<close> is present, \<^verbatim>\<open>score_english\<close> is the bucket lookup of the overall
  value in \<^verbatim>\<open>ielts_overall\<close> for the test \<^verbatim>\<open>ielts\<close> and in \<^verbatim>\<open>pte_overall\<close> for the test
  \<^verbatim>\<open>pte\<close>, whatever the four skill fields hold: the overall path has priority.
\<close>

theorem score_english_overall:
  "overall e = Some ov \<Longrightarrow>
   (test e = ''ielts'' \<longrightarrow> score_english R e = bucket_points (ielts_overall (rules_english R)) ov) \<and>
   (test e = ''pte'' \<longrightarrow> score_english R e = bucket_points (pte_overall (rules_english R)) ov)"
  by (simp add: score_english_def)

theorem score_english_overall_witness:
  "overall (english example_request) = Some (Fin 8) \<and>
   test (english example_request) = ''ielts'' \<and>
   score_english example_rules (english example_request) = 20 \<and>
   score_english example_rules
     \<lparr> test = ''pte'', overall = Some (Fin 70), listening = Some (Fin 90),
       reading = Some (Fin 90), writing = Some (Fin 90), speaking = Some (Fin 90) \<rparr> = 10"
proof -
  let ?e = "english example_request"
  let ?p = "\<lparr> test = ''pte'', overall = Some (Fin 70), listening = Some (Fin 90),
              reading = Some (Fin 90), writing = Some (Fin 90), speaking = Some (Fin 90) \<rparr>"
  have h: "overall ?e = Some (Fin 8)" "test ?e = ''ielts''"
    "overall ?p = Some (Fin 70)" "test ?p = ''pte''"
    by (simp_all add: example_request_def)
  from score_english_overall [OF h(1), of example_rules] h(2)
  have "score_english example_rules ?e =
          bucket_points (ielts_overall (rules_english example_rules)) (Fin 8)"
    by blast
  moreover from score_english_overall [OF h(3), of example_rules] h(4)
  have "score_english example_rules ?p =
          bucket_points (pte_overall (rules_english example_rules)) (Fin 70)"
    by blast
  ultimately show ?thesis
    using h by (simp add: example_rules_def get_max_def py_ge_def)
qed

text \<open>
  The per-skill path on finite scores. When \<open>overall\<close> is absent and the four skills are
  present and finite, \<^verbatim>\<open>score_english\<close> takes the minimum of the four skills and returns
  the points of the band (of \<^verbatim>\<open>ielts_bands\<close> or \<^verbatim>\<open>pte_bands\<close>, by the test) with the highest
  threshold that the minimum reaches, in whatever order the table lists its bands; among
  bands that share this threshold it is the first of the table. When the minimum reaches
  no threshold the score is 0.
\<close>

lemma score_english_finite_skills:
  assumes "overall e = None"
    and "listening e = Some (Fin l)" and "reading e = Some (Fin r)"
    and "writing e = Some (Fin w)" and "speaking e = Some (Fin s)"
  shows "let mn = Min {l, r, w, s};
             bands = (if test e = ''ielts'' then ielts_bands (rules_english R)
                      else pte_bands (rules_english R))
         in ((\<exists>b\<in>set bands. bmin b \<le> mn) \<longrightarrow>
               (\<exists>i<length bands.
                   bmin (bands ! i) \<le> mn \<and>
                   (\<forall>b\<in>set bands. bmin b \<le> mn \<longrightarrow> bmin b \<le> bmin (bands ! i)) \<and>
                   (\<forall>j<i. bmin (bands ! j) \<noteq> bmin (bands ! i)) \<and>
                   score_english R e = points (bands ! i))) \<and>
            ((\<forall>b\<in>set bands. \<not> bmin b \<le> mn) \<longrightarrow> score_english R e = 0)"
proof -
  define mn where "mn = Min {l, r, w, s}"
  define bands where "bands = (if test e = ''ielts'' then ielts_bands (rules_english R)
                      else pte_bands (rules_english R))"
  have reach: "py_ge (Fin mn) (Fin (bmin b)) = (bmin b \<le> mn)" for b
    by (simp add: py_ge_def)
  have mn: "py_min_from (Fin l) [Fin r, Fin w, Fin s] = Fin mn"
    unfolding mn_def by (rule py_min_from_finite)
  have score: "score_english R e =
      (case band_scan (sorted_desc bands) (Fin mn) of Some p \<Rightarrow> p | None \<Rightarrow> 0)"
    using assms mn by (simp add: score_english_def bands_def del: py_min_from.simps)
  have zero: "score_english R e = 0" if "\<forall>b\<in>set bands. \<not> bmin b \<le> mn"
    using that by (simp add: score band_scan_sorted_desc reach)
  have top: "\<exists>i<length bands.
                   bmin (bands ! i) \<le> mn \<and>
                   (\<forall>b\<in>set bands. bmin b \<le> mn \<longrightarrow> bmin b \<le> bmin (bands ! i)) \<and>
                   (\<forall>j<i. bmin (bands ! j) \<noteq> bmin (bands ! i)) \<and>
                   score_english R e = points (bands ! i)" if ex: "\<exists>b\<in>set bands. bmin b \<le> mn"
  proof -
    let ?Q = "{b \<in> set bands. bmin b \<le> mn}"
    let ?k = "Max (bmin ` ?Q)"
    have fin: "finite (bmin ` ?Q)" and ne: "bmin ` ?Q \<noteq> {}" using ex by auto
    have "?k \<in> bmin ` ?Q" using Max_in [OF fin ne] .
    then obtain b0 where b0: "b0 \<in> set bands" "bmin b0 \<le> mn" "bmin b0 = ?k" by auto
    then obtain b where f: "find (\<lambda>b. bmin b = ?k) bands = Some b"
      by (cases "find (\<lambda>b. bmin b = ?k) bands") (auto simp: find_None_iff)
    then obtain i where i: "i < length bands" "bmin (bands ! i) = ?k" "b = bands ! i"
      "\<forall>j<i. bmin (bands ! j) \<noteq> ?k"
      by (auto simp: find_Some_iff)
    have le: "bmin (bands ! i) \<le> mn" using i(2) b0 by simp
    have mx: "\<forall>b\<in>set bands. bmin b \<le> mn \<longrightarrow> bmin b \<le> bmin (bands ! i)"
      using i(2) fin by (auto intro: Max_ge)
    have "\<not> (\<forall>b\<in>set bands. \<not> bmin b \<le> mn)" using ex by blast
    then have "band_scan (sorted_desc bands) (Fin mn) = Some (points (bands ! i))"
      using f i(3) by (simp add: band_scan_sorted_desc reach)
    then have "score_english R e = points (bands ! i)"
      by (simp add: score)
    with i le mx show ?thesis by auto
  qed
  show ?thesis
    unfolding Let_def mn_def [symmetric] bands_def [symmetric]
    using zero top by blast
qed

lemma score_english_finite_skills_example:
  "(\<exists>b\<in>set (ielts_bands (rules_english example_rules)). bmin b \<le> Min {9, 9, 15 / 2, 8}) \<and>
   score_english example_rules skills_request = 10 \<and>
   \<not> (\<exists>b\<in>set (ielts_bands (rules_english example_rules)). bmin b \<le> Min {6, 6, 6, 6}) \<and>
   score_english example_rules
     \<lparr> test = ''ielts'', overall = None, listening = Some (Fin 6), reading = Some (Fin 6),
       writing = Some (Fin 6), speaking = Some (Fin 6) \<rparr> = 0"
proof -
  let ?bands = "ielts_bands (rules_english example_rules)"
  let ?low = "\<lparr> test = ''ielts'', overall = None, listening = Some (Fin 6),
                reading = Some (Fin 6), writing = Some (Fin 6), speaking = Some (Fin 6) \<rparr>"
  have bands: "?bands = [\<lparr> bmin = 7, bmax = None, points = 10 \<rparr>,
                         \<lparr> bmin = 8, bmax = None, points = 20 \<rparr>]"
    by (simp add: example_rules_def)
  have some: "\<exists>b\<in>set ?bands. bmin b \<le> Min {9, 9, 15 / 2, 8}"
    by (simp add: bands)
  have none: "\<forall>b\<in>set ?bands. \<not> bmin b \<le> Min {6, 6, 6, 6}"
    by (simp add: bands)
  have "overall skills_request = None" "listening skills_request = Some (Fin 9)"
    "reading skills_request = Some (Fin 9)" "writing skills_request = Some (Fin (15 / 2))"
    "speaking skills_request = Some (Fin 8)" "test skills_request = ''ielts''"
    by (simp_all add: skills_request_def)
  from score_english_finite_skills [OF this(1-5), of example_rules] this(6) some
  obtain i where i: "i < length ?bands" "bmin (?bands ! i) \<le> Min {9, 9, 15 / 2, 8}"
    "score_english example_rules skills_request = points (?bands ! i)"
    unfolding Let_def by auto
  from i(1) have "i = 0 \<or> i = 1" by (auto simp: bands)
  with i(2) have "i = 0" by (auto simp: bands)
  with i(3) have ten: "score_english example_rules skills_request = 10"
    by (simp add: bands)
  have "overall ?low = None" "listening ?low = Some (Fin 6)" "reading ?low = Some (Fin 6)"
    "writing ?low = Some (Fin 6)" "speaking ?low = Some (Fin 6)" "test ?low = ''ielts''"
    by simp_all
  from score_english_finite_skills [OF this(1-5), of example_rules] this(6) none
  have "score_english example_rules ?low = 0"
    unfolding Let_def by auto
  with some none ten show ?thesis by blast
qed

text \<open>
  C3. The claim makes the score of the per-skill path a function of the minimum of the
  four skills, for every English input with the four skills present; the source says the
  same in its comments (the minimum of the four skills decides the band). The request
  accepts \<^verbatim>\<open>nan\<close> as a skill, and there the code does not do so: of two inputs that hold
  the same four values, 9.0 three times and one \<^verbatim>\<open>nan\<close>, the one with the \<^verbatim>\<open>nan\<close> in
  \<open>listening\<close> scores 0 and the one with the \<^verbatim>\<open>nan\<close> in \<open>reading\<close> scores 20, the points of
  the band of threshold 8.
\<close>

theorem score_english_nan_skill:
  "score_english example_rules nan_listening_request = 0 \<and>
   score_english example_rules nan_reading_request = 20"
  by (simp add: score_english_def nan_listening_request_def nan_reading_request_def
      example_rules_def sorted_desc_def py_ge_def)

text \<open>
  C4. When \<open>overall\<close> is absent and at least one of the four skills is absent too,
  \<^verbatim>\<open>score_english\<close> returns 0: a value, not an error, and for every rule table.
\<close>

theorem score_english_partial_skills:
  "overall e = None \<Longrightarrow>
   listening e = None \<or> reading e = None \<or> writing e = None \<or> speaking e = None \<Longrightarrow>
   score_english R e = 0"
  by (auto simp: score_english_def simp del: py_min_from.simps split: option.splits)

theorem score_english_partial_skills_witness:
  "score_english example_rules
     \<lparr> test = ''ielts'', overall = None, listening = Some (Fin 9), reading = Some (Fin 9),
       writing = Some (Fin 9), speaking = None \<rparr> = 0"
  using score_english_partial_skills [of
      "\<lparr> test = ''ielts'', overall = None, listening = Some (Fin 9), reading = Some (Fin 9),
         writing = Some (Fin 9), speaking = None \<rparr>" example_rules]
  by simp

text \<open>
  C5. \<^verbatim>\<open>score_experience\<close> looks up the overseas years and the Australian years in their own
  bucket tables and combines the two sub-scores by the mode of the table: in \<^verbatim>\<open>sum_cap\<close>
  the result is the smaller of \<^verbatim>\<open>cap_points\<close> and the sum, hence never above
  \<^verbatim>\<open>cap_points\<close>; in \<^verbatim>\<open>max_only\<close> it is the larger of the two; for any other mode it is 0.
\<close>

theorem score_experience_modes:
  "let r = rules_work_experience R;
       over = bucket_points (overseas r) (Fin (real_of_int (overseas_years ex)));
       aus = bucket_points (australia r) (Fin (real_of_int (aus_years ex)))
   in (mode r = ''sum_cap'' \<longrightarrow>
         score_experience R ex = min (cap_points r) (over + aus) \<and>
         score_experience R ex \<le> cap_points r) \<and>
      (mode r = ''max_only'' \<longrightarrow> score_experience R ex = max over aus) \<and>
      (mode r \<noteq> ''sum_cap'' \<and> mode r \<noteq> ''max_only'' \<longrightarrow> score_experience R ex = 0)"
  by (simp add: score_experience_def Let_def)

theorem score_experience_modes_witness:
  "mode (rules_work_experience example_rules) = ''sum_cap'' \<and>
   score_experience example_rules \<lparr> overseas_years = 8, aus_years = 8 \<rparr> = 20 \<and>
   mode (rules_work_experience max_only_rules) = ''max_only'' \<and>
   score_experience max_only_rules \<lparr> overseas_years = 8, aus_years = 3 \<rparr> = 15 \<and>
   mode (rules_work_experience average_rules) = ''average'' \<and>
   score_experience average_rules \<lparr> overseas_years = 8, aus_years = 8 \<rparr> = 0"
proof -
  have m: "mode (rules_work_experience example_rules) = ''sum_cap''"
    "mode (rules_work_experience max_only_rules) = ''max_only''"
    "mode (rules_work_experience average_rules) = ''average''"
    by (simp_all add: example_rules_def max_only_rules_def average_rules_def)
  have o: "bucket_points (overseas (rules_work_experience example_rules)) (Fin 8) = 15"
    "bucket_points (australia (rules_work_experience example_rules)) (Fin 8) = 20"
    "bucket_points (australia (rules_work_experience example_rules)) (Fin 3) = 10"
    "cap_points (rules_work_experience example_rules) = 20"
    by (simp_all add: example_rules_def get_max_def py_ge_def)
  have t: "overseas (rules_work_experience max_only_rules) = overseas (rules_work_experience example_rules)"
    "australia (rules_work_experience max_only_rules) = australia (rules_work_experience example_rules)"
    by (simp_all add: max_only_rules_def)
  from score_experience_modes [of example_rules "\<lparr> overseas_years = 8, aus_years = 8 \<rparr>"] m(1) o
  have "score_experience example_rules \<lparr> overseas_years = 8, aus_years = 8 \<rparr> = 20"
    by (simp add: Let_def)
  moreover
  from score_experience_modes [of max_only_rules "\<lparr> overseas_years = 8, aus_years = 3 \<rparr>"] m(2) o t
  have "score_experience max_only_rules \<lparr> overseas_years = 8, aus_years = 3 \<rparr> = 15"
    by (simp add: Let_def)
  moreover
  from score_experience_modes [of average_rules "\<lparr> overseas_years = 8, aus_years = 8 \<rparr>"] m(3)
  have "score_experience average_rules \<lparr> overseas_years = 8, aus_years = 8 \<rparr> = 0"
    by (simp add: Let_def)
  ultimately show ?thesis using m by simp
qed

text \<open>
  C6. \<^verbatim>\<open>score_au_study\<close> is 0 when \<open>completed\<close> is false, also when \<open>regional\<close> is true;
  when \<open>completed\<close> is true it is the base points, plus the regional bonus exactly when
  \<open>regional\<close> is true.
\<close>

theorem score_au_study_cases:
  "(\<not> completed stu \<longrightarrow> score_au_study R stu = 0) \<and>
   (completed stu \<and> \<not> regional stu \<longrightarrow>
      score_au_study R stu = study_points (rules_australia_study R)) \<and>
   (completed stu \<and> regional stu \<longrightarrow>
      score_au_study R stu =
        study_points (rules_australia_study R) + regional_bonus (rules_australia_study R))"
  by (simp add: score_au_study_def Let_def)

theorem score_au_study_cases_witness:
  "score_au_study example_rules \<lparr> completed = False, regional = True \<rparr> = 0 \<and>
   score_au_study example_rules \<lparr> completed = True, regional = False \<rparr> = 5 \<and>
   score_au_study example_rules \<lparr> completed = True, regional = True \<rparr> = 10"
  using score_au_study_cases [of "\<lparr> completed = False, regional = True \<rparr>" example_rules]
    score_au_study_cases [of "\<lparr> completed = True, regional = False \<rparr>" example_rules]
    score_au_study_cases [of "\<lparr> completed = True, regional = True \<rparr>" example_rules]
  by (simp add: example_rules_def)

text \<open>
  C7, as the code has it. The breakdown has exactly the nine categories, in the order
  age, english, education, work_experience, australia_study, professional_year, naati,
  partner, state_nomination, and every value in it is a nonnegative integer provided
  every points value of the rule table is nonnegative. The scorers pass the points of
  the table on and never clamp them.
\<close>

theorem breakdown_nonneg:
  assumes "nonneg_rules R"
  shows "map fst (breakdown (calc_points R req)) =
           [''age'', ''english'', ''education'', ''work_experience'', ''australia_study'',
            ''professional_year'', ''naati'', ''partner'', ''state_nomination''] \<and>
         (\<forall>(k, p)\<in>set (breakdown (calc_points R req)). 0 \<le> p)"
proof -
  have "0 \<le> rules_professional_year_points R" "0 \<le> rules_naati_points R"
    "0 \<le> get_or_0 (rules_partner R) (partner req)"
    using assms by (simp_all add: nonneg_rules_def get_or_0_nonneg)
  then show ?thesis
    using assms
    by (simp add: breakdown_calc_points score_age_nonneg score_english_nonneg
        score_education_nonneg score_experience_nonneg score_au_study_nonneg
        score_state_nomination_nonneg)
qed

theorem breakdown_nonneg_witness:
  "nonneg_rules example_rules \<and> valid_CalcRequest example_request \<and>
   breakdown (calc_points example_rules example_request) =
     [(''age'', 30), (''english'', 20), (''education'', 15), (''work_experience'', 20),
      (''australia_study'', 10), (''professional_year'', 5), (''naati'', 0), (''partner'', 0),
      (''state_nomination'', 0)] \<and>
   list_all (\<lambda>(k, p). 0 \<le> p) (breakdown (calc_points example_rules example_request))"
proof -
  have "breakdown (calc_points example_rules example_request) =
     [(''age'', 30), (''english'', 20), (''education'', 15), (''work_experience'', 20),
      (''australia_study'', 10), (''professional_year'', 5), (''naati'', 0), (''partner'', 0),
      (''state_nomination'', 0)]"
    by (simp add: breakdown_calc_points example_rules_def example_request_def
        score_age_def score_english_def score_education_def score_experience_def
        score_au_study_def score_state_nomination_def get_or_0_def get_max_def py_ge_def Let_def)
  moreover from breakdown_nonneg [OF nonneg_example_rules, of example_request]
  have "list_all (\<lambda>(k, p). 0 \<le> p) (breakdown (calc_points example_rules example_request))"
    unfolding list_all_iff by (rule conjunct2)
  ultimately show ?thesis
    using nonneg_example_rules valid_example_request by simp
qed

text \<open>
  Without the condition on the table the values can be negative: with a partner entry
  of \<open>-5\<close> for \<^verbatim>\<open>none\<close>, a valid request gets a partner category of \<open>-5\<close>.
\<close>

theorem breakdown_negative_counterexample:
  "valid_CalcRequest example_request \<and>
   breakdown (calc_points penalty_rules example_request) =
     [(''age'', 30), (''english'', 20), (''education'', 15), (''work_experience'', 20),
      (''australia_study'', 10), (''professional_year'', 5), (''naati'', 0), (''partner'', - 5),
      (''state_nomination'', 0)]"
  using valid_example_request
  by (simp add: breakdown_calc_points penalty_rules_def example_rules_def example_request_def
        score_age_def score_english_def score_education_def score_experience_def
        score_au_study_def score_state_nomination_def get_or_0_def get_max_def py_ge_def Let_def)


text \<open>
  C9. The total of the response is the sum of every value of its breakdown, which is the
  sum of the nine category scores.
\<close>

theorem total_is_sum:
  "total (calc_points R req) = sum_list (map snd (breakdown (calc_points R req))) \<and>
   total (calc_points R req) =
     score_age R (age req) + score_english R (english req) +
     score_education R (education req) + score_experience R (work_experience req) +
     score_au_study R (australia_study req) +
     (if professional_year req then rules_professional_year_points R else 0) +
     (if naati req then rules_naati_points R else 0) +
     get_or_0 (rules_partner R) (partner req) +
     score_state_nomination R (visa req)"
  by (simp add: total_calc_points breakdown_calc_points)

theorem total_is_sum_witness:
  "total (calc_points example_rules example_request) = 100 \<and>
   sum_list (map snd (breakdown (calc_points example_rules example_request))) = 100"
proof -
  have "score_age example_rules (age example_request) = 30"
    "score_english example_rules (english example_request) = 20"
    "score_education example_rules (education example_request) = 15"
    "score_experience example_rules (work_experience example_request) = 20"
    "score_au_study example_rules (australia_study example_request) = 10"
    "(if professional_year example_request then rules_professional_year_points example_rules else 0) = 5"
    "(if naati example_request then rules_naati_points example_rules else 0) = 0"
    "get_or_0 (rules_partner example_rules) (partner example_request) = 0"
    "score_state_nomination example_rules (visa example_request) = 0"
    by (simp_all add: example_rules_def example_request_def
        score_age_def score_english_def score_education_def score_experience_def
        score_au_study_def score_state_nomination_def get_or_0_def get_max_def py_ge_def Let_def)
  with total_is_sum [of example_rules example_request]
  show ?thesis by simp
qed

text \<open>
  C10. With \<open>overall\<close> present, the score does not depend on the four skill fields: two
  inputs with the same test and the same overall value score the same, namely the bucket
  lookup of the overall value. Presence decides the path, so an overall of 0.0 next to
  four high skills is scored from the overall table.
\<close>

theorem score_english_ignores_skills:
  assumes "overall e1 = Some ov" and "overall e2 = Some ov" and "test e1 = test e2"
  shows "score_english R e1 = score_english R e2 \<and>
         score_english R e1 =
           bucket_points (if test e1 = ''ielts'' then ielts_overall (rules_english R)
                          else pte_overall (rules_english R)) ov"
  using assms by (simp add: score_english_def)

theorem score_english_ignores_skills_witness:
  "score_english example_rules
     \<lparr> test = ''ielts'', overall = Some (Fin 0), listening = Some (Fin 9), reading = Some (Fin 9),
       writing = Some (Fin 9), speaking = Some (Fin 9) \<rparr> = 0 \<and>
   score_english example_rules
     \<lparr> test = ''ielts'', overall = Some (Fin 0), listening = None, reading = None,
       writing = None, speaking = None \<rparr> = 0 \<and>
   score_english example_rules
     \<lparr> test = ''ielts'', overall = None, listening = Some (Fin 9), reading = Some (Fin 9),
       writing = Some (Fin 9), speaking = Some (Fin 9) \<rparr> = 20"
proof -
  let ?e1 = "\<lparr> test = ''ielts'', overall = Some (Fin 0), listening = Some (Fin 9),
               reading = Some (Fin 9), writing = Some (Fin 9), speaking = Some (Fin 9) \<rparr>"
  let ?e2 = "\<lparr> test = ''ielts'', overall = Some (Fin 0), listening = None,
               reading = None, writing = None, speaking = None \<rparr>"
  have h: "overall ?e1 = Some (Fin 0)" "overall ?e2 = Some (Fin 0)" "test ?e1 = test ?e2"
    by simp_all
  from score_english_ignores_skills [OF h, of example_rules]
  have "score_english example_rules ?e1 = score_english example_rules ?e2"
    and "score_english example_rules ?e1 =
           bucket_points (ielts_overall (rules_english example_rules)) (Fin 0)"
    by simp_all
  moreover have "bucket_points (ielts_overall (rules_english example_rules)) (Fin 0) = 0"
    by (simp add: example_rules_def py_ge_def)
  moreover have "score_english example_rules
     \<lparr> test = ''ielts'', overall = None, listening = Some (Fin 9), reading = Some (Fin 9),
       writing = Some (Fin 9), speaking = Some (Fin 9) \<rparr> = 20"
    by (simp add: score_english_def example_rules_def sorted_desc_def py_ge_def)
  ultimately show ?thesis by simp
qed

end
